theory Spec2Isabelle
  imports Main
begin

section \<open>The module execution core of bbot: \<open>bbot/modules/base.py\<close>\<close>

text \<open>
  The class \<open>BaseModule\<close> is embedded as functions over three records: the
  declarative configuration of a module (its class attributes and its user
  callbacks), the scan it belongs to, and the runtime state of the instance.
  Python's leading underscore is not an Isabelle identifier: the runtime methods
  \<open>_setup\<close>, \<open>_handle_batch\<close>, \<open>_worker\<close> and \<open>_cleanup\<close> are
  \<open>run_setup\<close>, \<open>run_handle_batch\<close>, \<open>worker_iteration\<close> and \<open>run_cleanup\<close>;
  \<open>_event_precheck\<close> and \<open>_event_postcheck\<close> drop the underscore; the user
  callbacks are the fields \<open>cb_setup\<close>, \<open>cb_filter_event\<close>, ... of the
  configuration.

  Calls to the logger (\<open>debug\<close>, \<open>warning\<close>, \<open>trace\<close>) write to the log only and
  are left out. Every other effect is kept: state changes are returned, raised
  exceptions are values of the type \<open>exn\<close>, and what the runtime does to the world
  outside the module (invoking a user callback, feeding a statistics sink,
  notifying a condition variable) is appended to the \<open>effects\<close> of the state.
\<close>

subsection \<open>Python values, exceptions, strings\<close>

text \<open>What a user callback may hand back as a status: \<open>None\<close>, a \<open>bool\<close> or an \<open>int\<close>.\<close>

datatype status = SNone | SBool bool | SInt int

text \<open>Python's truth value of a status (\<open>if not filter_result\<close>).\<close>

fun truthy :: "status \<Rightarrow> bool" where
  "truthy SNone = False"
| "truthy (SBool b) = b"
| "truthy (SInt i) = (i \<noteq> 0)"

text \<open>
  The exceptions the core raises, catches or tells apart, each with the text
  \<open>str(e)\<close> gives. All of them are subclasses of Python's \<open>Exception\<close>.
\<close>

datatype exn =
    ValidationError string
  | WordlistError string
  | KeyError string
  | AttributeError string
  | TypeError string
  | QueueEmpty
  | OtherError string

fun exn_str :: "exn \<Rightarrow> string" where
  "exn_str (ValidationError s) = s"
| "exn_str (WordlistError s) = s"
| "exn_str (KeyError s) = s"
| "exn_str (AttributeError s) = s"
| "exn_str (TypeError s) = s"
| "exn_str QueueEmpty = ''''"
| "exn_str (OtherError s) = s"

text \<open>What a user coroutine does: return a value, return a pair, or raise.\<close>

datatype callback_result = Return status | Return2 status string | Raise exn

text \<open>Decimal rendering of integers, as an f-string does it.\<close>

definition digit_char :: "nat \<Rightarrow> char" where
  "digit_char d = ''0123456789'' ! (d mod 10)"

function str_nat :: "nat \<Rightarrow> string" where
  "str_nat n = (if n < 10 then [digit_char n] else str_nat (n div 10) @ [digit_char (n mod 10)])"
  by pat_completeness auto
termination
  by (relation "measure (\<lambda>n. n)") auto

declare str_nat.simps [simp del]

definition str_int :: "int \<Rightarrow> string" where
  "str_int i = (if i < 0 then ''-'' @ str_nat (nat (- i)) else str_nat (nat i))"

subsection \<open>Events\<close>

text \<open>
  The fields of an event that the core reads or writes. \<open>source\<close> is the event this
  one was derived from (or \<open>None\<close>); \<open>emodule\<close> is the producing module, known to the
  core through \<open>str(event.module)\<close>, that is its name; \<open>stats_recorded\<close> is the
  latch \<open>_stats_recorded\<close>.
\<close>

datatype event = Event
  (etype: string)
  (scope_distance: int)
  (tags: "string set")
  (source: "event option")
  (emodule: "string option")
  (priority: nat)
  (stats_recorded: bool)
  (data: string)

definition set_stats_recorded :: "event \<Rightarrow> event" where
  "set_stats_recorded e =
     Event (etype e) (scope_distance e) (tags e) (source e) (emodule e) (priority e) True (data e)"

definition set_emodule :: "string \<Rightarrow> event \<Rightarrow> event" where
  "set_emodule n e =
     Event (etype e) (scope_distance e) (tags e) (source e) (Some n) (priority e)
       (stats_recorded e) (data e)"

text \<open>\<open>getattr(event.source, "type", "")\<close>\<close>

definition source_type :: "event \<Rightarrow> string" where
  "source_type e = (case source e of None \<Rightarrow> '''' | Some src \<Rightarrow> etype src)"

text \<open>\<open>str(event.module)\<close>\<close>

definition str_module :: "event \<Rightarrow> string" where
  "str_module e = (case emodule e of None \<Rightarrow> ''None'' | Some n \<Rightarrow> n)"

text \<open>\<open>event.type.startswith("URL")\<close>\<close>

definition startswith :: "string \<Rightarrow> string \<Rightarrow> bool" where
  "startswith s p = (take (length p) s = p)"

subsection \<open>Queues\<close>

text \<open>
  A queue attribute of a module holds \<open>None\<close> (not created yet), the sentinel
  \<open>False\<close> (disabled) or an \<open>asyncio.PriorityQueue\<close>. The attribute is an
  \<open>'a queue option\<close>: \<open>None\<close> is Python's \<open>None\<close>.

  Modelled from the spec: \<open>asyncio.PriorityQueue\<close> and the ordering of events are
  not part of the source files. Section 4.C of the specification has the items
  ordered by priority, lower first, and by arrival within one priority. The list
  of a \<open>PriorityQueue\<close> is kept in the order in which \<open>get\<close> hands the items out.
  A new item is compared with the queued ones by Python's \<open><\<close>, from the front
  of that list; the comparison may raise.
\<close>

datatype 'a queue = QFalse | PriorityQueue "'a list"

text \<open>
  A queue object defines neither \<open>__bool__\<close> nor \<open>__len__\<close>: in a condition
  (\<open>if self.incoming_event_queue\<close>) it is true, also when it is empty, and the
  sentinel is false. Such a condition is a \<open>case\<close> on the two constructors.
\<close>

text \<open>
  \<open>lt x y\<close> is Python's \<open>x < y\<close> for the new item \<open>x\<close> and a queued item \<open>y\<close>:
  \<open>Inr True\<close> puts \<open>x\<close> ahead of \<open>y\<close>, \<open>Inl\<close> is the exception the comparison
  raises.
\<close>

fun pq_insert :: "('a \<Rightarrow> 'a \<Rightarrow> exn + bool) \<Rightarrow> 'a \<Rightarrow> 'a list \<Rightarrow> exn + 'a list" where
  "pq_insert lt x [] = Inr [x]"
| "pq_insert lt x (y # ys) =
     (case lt x y of
        Inl ex \<Rightarrow> Inl ex
      | Inr b \<Rightarrow>
          if b then Inr (x # y # ys)
          else (case pq_insert lt x ys of Inl ex \<Rightarrow> Inl ex | Inr zs \<Rightarrow> Inr (y # zs)))"

text \<open>\<open>get_nowait\<close> raises \<open>QueueEmpty\<close> on an empty queue.\<close>

fun get_nowait :: "'a list \<Rightarrow> exn + ('a \<times> 'a list)" where
  "get_nowait [] = Inl QueueEmpty"
| "get_nowait (x # xs) = Inr (x, xs)"

text \<open>
  \<open>put_nowait\<close> is an attribute of a queue object only: on the sentinel \<open>False\<close>
  the attribute lookup raises \<open>AttributeError\<close>. The queues are unbounded. The
  result is the exception that leaves the call, if any, and the queue as the
  call leaves it: the item is appended to the heap before it is moved into
  place, so a comparison that raises leaves the item in the queue.
\<close>

fun put_nowait :: "('a \<Rightarrow> 'a \<Rightarrow> exn + bool) \<Rightarrow> 'a queue \<Rightarrow> 'a \<Rightarrow> exn option \<times> 'a queue" where
  "put_nowait lt QFalse x = (Some (AttributeError ''put_nowait''), QFalse)"
| "put_nowait lt (PriorityQueue xs) x =
     (case pq_insert lt x xs of
        Inl ex \<Rightarrow> (Some ex, PriorityQueue (xs @ [x]))
      | Inr ys \<Rightarrow> (None, PriorityQueue ys))"

fun qsize :: "'a queue \<Rightarrow> exn + nat" where
  "qsize QFalse = Inl (AttributeError ''qsize'')"
| "qsize (PriorityQueue xs) = Inr (length xs)"

subsection \<open>Configuration, scan and runtime state\<close>

text \<open>
  The options an \<open>emit_event\<close> call passes on to the controller. \<open>None\<close> is an
  option that was not given, or given as \<open>None\<close>; callables are known by a number.
\<close>

record emit_kwargs =
  on_success_callback :: "nat option"
  abort_if :: "nat option"
  quick :: "bool option"

type_synonym out_item = "event option \<times> emit_kwargs"

text \<open>\<open>a < b\<close> on two events: by priority, the lower number first.\<close>

definition event_lt :: "event \<Rightarrow> event \<Rightarrow> exn + bool" where
  "event_lt a b = Inr (priority a < priority b)"

text \<open>The arguments of \<open>make_event\<close> that the core hands to the scan untouched.\<close>

type_synonym event_args = "string list"

datatype condition = EventReceived | EventQueued | EventDequeued

datatype callback =
    HandleEvent event
  | HandleBatch "event list"
  | Finish
  | Report
  | Cleanup nat

text \<open>
  \<open>Invoked c n\<close>: the user callback \<open>c\<close> ran, and the task counter had the value
  \<open>n\<close> while it ran.
\<close>

datatype effect =
    Invoked callback int
  | EventConsumed event
  | EventProduced event
  | Notified condition

record module_config =
  name :: string
  watched_events :: "string list"
  flags :: "string list"
  scope_distance_modifier :: "int option"
  target_only :: bool
  in_scope_only :: bool
  batch_size :: int
  batch_wait :: int
  qsize_limit :: int
  mtype :: string
  cb_setup :: callback_result
  cb_filter_event :: "event \<Rightarrow> callback_result"
  cb_handle_event :: "event \<Rightarrow> exn option"
  cb_handle_batch :: "event list \<Rightarrow> exn option"
  cb_finish :: "exn option"
  cb_report :: "exn option"
  cb_cleanup :: "exn option"

text \<open>
  The scan, and with it the class of the events it mints. That class is not
  part of the source files, and what it answers when an event is compared with
  \<open>None\<close> is taken as given: \<open>none_lt_event e\<close> is Python's \<open>None < e\<close> (decided
  by the reflected \<open>e.__gt__(None)\<close>), \<open>event_lt_none e\<close> is \<open>e < None\<close>; either
  may raise \<open>TypeError\<close>.
\<close>

record scan =
  stopping :: bool
  scope_search_distance :: int
  whitelist :: "event \<Rightarrow> bool"
  scan_make_event :: "event_args \<Rightarrow> exn + event"
  none_lt_event :: "event \<Rightarrow> exn + bool"
  event_lt_none :: "event \<Rightarrow> exn + bool"

text \<open>
  The state of a module instance. Python mutates a queue object in place, and
  the object lives on when the attribute that named it is assigned anew:
  \<open>replaced_queue\<close> is the queue object that \<open>_incoming_event_queue\<close> named until
  the sentinel \<open>False\<close> took its place (a worker suspended in its \<open>get()\<close> still
  holds it), with the items it has; \<open>None\<close> while no queue was replaced.
\<close>

record module_state =
  errored :: bool
  incoming :: "event queue option"
  outgoing :: "out_item queue option"
  watched_cache :: "string set option"
  task_counter :: int
  cleanedup :: bool
  cleanup_callbacks :: "exn option list"
  effects :: "effect list"
  replaced_queue :: "event list option"

text \<open>\<open>__init__\<close>\<close>

definition init :: module_state where
  "init = \<lparr> errored = False, incoming = None, outgoing = None, watched_cache = None,
            task_counter = 0, cleanedup = False, cleanup_callbacks = [], effects = [],
            replaced_queue = None \<rparr>"

definition emit :: "effect \<Rightarrow> module_state \<Rightarrow> module_state" where
  "emit x s = s\<lparr> effects := effects s @ [x] \<rparr>"

text \<open>The properties \<open>incoming_event_queue\<close> and \<open>outgoing_event_queue\<close> create the queue on first use.\<close>

definition incoming_event_queue :: "module_state \<Rightarrow> event queue \<times> module_state" where
  "incoming_event_queue s =
     (case incoming s of
        None \<Rightarrow> (PriorityQueue [], s\<lparr> incoming := Some (PriorityQueue []) \<rparr>)
      | Some q \<Rightarrow> (q, s))"

definition outgoing_event_queue :: "module_state \<Rightarrow> out_item queue \<times> module_state" where
  "outgoing_event_queue s =
     (case outgoing s of
        None \<Rightarrow> (PriorityQueue [], s\<lparr> outgoing := Some (PriorityQueue []) \<rparr>)
      | Some q \<Rightarrow> (q, s))"

text \<open>\<open>get_watched_events\<close> caches \<open>set(self.watched_events)\<close>.\<close>

definition get_watched_events :: "module_config \<Rightarrow> module_state \<Rightarrow> string set \<times> module_state" where
  "get_watched_events m s =
     (case watched_cache s of
        None \<Rightarrow> (set (watched_events m), s\<lparr> watched_cache := Some (set (watched_events m)) \<rparr>)
      | Some w \<Rightarrow> (w, s))"

subsection \<open>Admission filter\<close>

text \<open>
  The property \<open>max_scope_distance\<close>. Adding \<open>None\<close> to an integer raises
  \<open>TypeError\<close>.
\<close>

definition max_scope_distance :: "module_config \<Rightarrow> scan \<Rightarrow> exn + int" where
  "max_scope_distance m sc =
     (if in_scope_only m \<or> target_only m then Inr 0
      else case scope_distance_modifier m of
             None \<Rightarrow> Inl (TypeError ''unsupported operand type(s) for +'')
           | Some d \<Rightarrow> Inr (max 0 (scope_search_distance sc + d)))"

definition event_precheck ::
  "module_config \<Rightarrow> event \<Rightarrow> module_state \<Rightarrow> (bool \<times> string) \<times> module_state" where
  "event_precheck m event s =
     (if etype event = ''FINISHED'' then ((True, ''''), s)
      else if errored s then ((False, ''module is in error state''), s)
      else
        let (watched, s1) = get_watched_events m s in
        if \<not> (''*'' \<in> watched \<or> etype event \<in> watched)
        then ((False, ''its type is not in watched_events''), s1)
        else if target_only m \<and> ''target'' \<notin> tags event
        then ((False, ''it did not meet target_only filter criteria''), s1)
        else if startswith (etype event) ''URL'' \<and> name m \<noteq> ''httpx''
                \<and> ''httpx-only'' \<in> tags event
        then ((False, ''its extension was listed in url_extension_httpx_only''), s1)
        else if source_type event = ''IP_RANGE'' \<and> etype event = ''IP_ADDRESS''
                \<and> str_module event = ''speculate'' \<and> name m \<noteq> ''speculate''
                \<and> list_all (\<lambda>x. x \<in> set (watched_events m)) [''IP_RANGE'', ''IP_ADDRESS'']
        then ((False, ''module consumes IP ranges directly''), s1)
        else ((True, ''''), s1))"

text \<open>
  Modelled from the spec: \<open>scan.acatch\<close> is not part of the source files.
  Section 4.D: any exception inside the block is captured, logged with the
  context, and suppressed. A block that ends by itself or by a suppressed
  exception goes on after the \<open>async with\<close>.
\<close>

definition acatch :: "exn option \<times> module_state \<Rightarrow> module_state" where
  "acatch r = snd r"

definition custom_filter_criteria_msg :: string where
  "custom_filter_criteria_msg = ''it did not meet custom filter criteria''"

text \<open>
  The block under \<open>acatch\<close> in \<open>_event_postcheck\<close>: \<open>Some msg\<close> is the early
  \<open>return False, msg\<close>; \<open>None\<close> is the end of the block, reached also when
  \<open>filter_event\<close> raised and \<open>acatch\<close> suppressed it. Unpacking a value that is no
  pair raises \<open>TypeError\<close>, which \<open>suppress\<close> swallows, leaving \<open>msg\<close> as it was.
\<close>

definition custom_filtering :: "module_config \<Rightarrow> event \<Rightarrow> string option" where
  "custom_filtering m event =
     (case cb_filter_event m event of
        Raise ex \<Rightarrow> None
      | Return filter_result \<Rightarrow>
          (if \<not> truthy filter_result then Some custom_filter_criteria_msg else None)
      | Return2 filter_result reason \<Rightarrow>
          (if \<not> truthy filter_result then Some (custom_filter_criteria_msg @ '': '' @ reason)
           else None))"

definition scope_exceeds_msg :: "module_config \<Rightarrow> scan \<Rightarrow> event \<Rightarrow> int \<Rightarrow> string" where
  "scope_exceeds_msg m sc event msd =
     ''its scope_distance ('' @ str_int (scope_distance event)
       @ '') exceeds the maximum allowed by the scan ('' @ str_int (scope_search_distance sc)
       @ '') + the module (''
       @ (case scope_distance_modifier m of None \<Rightarrow> ''None'' | Some d \<Rightarrow> str_int d)
       @ '') == '' @ str_int msd"

text \<open>
  The scope-distance part of \<open>_event_postcheck\<close>: \<open>Inr (Some reason)\<close> rejects,
  \<open>Inr None\<close> goes on to the custom filter.
\<close>

definition check_scope_distance :: "module_config \<Rightarrow> scan \<Rightarrow> event \<Rightarrow> exn + string option" where
  "check_scope_distance m sc event =
     (if mtype m \<noteq> ''output'' then
        (if in_scope_only m \<and> scope_distance event > 0
         then Inr (Some ''it did not meet in_scope_only filter criteria'')
         else case scope_distance_modifier m of
                None \<Rightarrow> Inr None
              | Some d \<Rightarrow>
                  if scope_distance event < 0
                  then Inr (Some (''its scope_distance ('' @ str_int (scope_distance event)
                                    @ '') is invalid.''))
                  else (case max_scope_distance m sc of
                          Inl ex \<Rightarrow> Inl ex
                        | Inr msd \<Rightarrow>
                            if scope_distance event > msd
                            then Inr (Some (scope_exceeds_msg m sc event msd))
                            else Inr None))
      else Inr None)"

text \<open>
  \<open>_event_postcheck\<close> returns the verdict and the event, whose latch it may have
  set; an exception that leaves it is \<open>Inl\<close>.
\<close>

definition event_postcheck ::
  "module_config \<Rightarrow> scan \<Rightarrow> event \<Rightarrow> module_state
     \<Rightarrow> exn + ((bool \<times> string) \<times> event \<times> module_state)" where
  "event_postcheck m sc event s =
     (if etype event = ''FINISHED'' then Inr ((True, ''''), event, s)
      else if ''active'' \<in> set (flags m) \<and> ''target'' \<in> tags event \<and> \<not> whitelist sc event
      then Inr ((False, ''it is not in whitelist and module has active flag''), event, s)
      else case check_scope_distance m sc event of
             Inl ex \<Rightarrow> Inl ex
           | Inr (Some reason) \<Rightarrow> Inr ((False, reason), event, s)
           | Inr None \<Rightarrow>
               (case custom_filtering m event of
                  Some msg \<Rightarrow> Inr ((False, msg), event, s)
                | None \<Rightarrow>
                    if mtype m = ''output'' \<and> \<not> stats_recorded event
                    then Inr ((True, ''''), set_stats_recorded event,
                              emit (EventProduced (set_stats_recorded event)) s)
                    else Inr ((True, ''''), event, s)))"

subsection \<open>Invoking user callbacks\<close>

text \<open>
  A user callback is known by its outcome: \<open>None\<close> when it returns, \<open>Some ex\<close>
  when it raises. What a callback does to the module on its own account (emitting
  events, asking for quarantine) is not part of its model; those operations are
  the functions below, called in their own right.
\<close>

definition invoke :: "callback \<Rightarrow> exn option \<Rightarrow> module_state \<Rightarrow> exn option \<times> module_state" where
  "invoke c outcome s = (outcome, emit (Invoked c (task_counter s)) s)"

text \<open>
  Modelled from the spec: \<open>TaskCounter\<close> (\<open>core/helpers/async_helpers.py\<close>) is not
  part of the source files. Section 4.E: the counter is incremented on entering
  the block and decremented on exit, regardless of outcome.
\<close>

definition with_task_counter ::
  "(module_state \<Rightarrow> exn option \<times> module_state) \<Rightarrow> module_state \<Rightarrow> exn option \<times> module_state" where
  "with_task_counter body s =
     (let (r, s1) = body (s\<lparr> task_counter := task_counter s + 1 \<rparr>)
      in (r, s1\<lparr> task_counter := task_counter s1 - 1 \<rparr>))"

subsection \<open>Quarantine and the incoming queue\<close>

text \<open>
  The loop \<open>while 1: self.incoming_event_queue.get_nowait()\<close> under
  \<open>suppress(QueueEmpty)\<close>: it ends when \<open>get_nowait\<close> raises, and \<open>QueueEmpty\<close> is
  all that \<open>get_nowait\<close> raises.
\<close>

function emptying :: "'a list \<Rightarrow> 'a list" where
  "emptying q = (case get_nowait q of Inl ex \<Rightarrow> q | Inr (x, q') \<Rightarrow> emptying q')"
  by pat_completeness auto
termination
proof (relation "measure length")
  show "wf (measure length)" by simp
next
  fix q :: "'a list" and r x q'
  assume "get_nowait q = Inr r" and "(x, q') = r"
  then show "(q', q) \<in> measure length" by (cases q) auto
qed

declare emptying.simps [simp del]

text \<open>
  \<open>set_error_state\<close>; the message goes to the log only. The loop empties the
  queue object, then the attribute is set to \<open>False\<close>; the object, with what the
  loop left in it, is the \<open>replaced_queue\<close> from then on.
\<close>

definition set_error_state :: "string option \<Rightarrow> module_state \<Rightarrow> module_state" where
  "set_error_state message s =
     (if \<not> errored s then
        let (q, s1) = incoming_event_queue (s\<lparr> errored := True \<rparr>) in
        (case q of
           QFalse \<Rightarrow> s1
         | PriorityQueue xs \<Rightarrow>
             (s1\<lparr> incoming := Some (PriorityQueue (emptying xs)) \<rparr>)
               \<lparr> incoming := Some QFalse, replaced_queue := Some (emptying xs) \<rparr>)
      else s)"

text \<open>
  \<open>asyncio.Condition\<close> implements the asynchronous context manager protocol
  only. \<open>async with cond:\<close> acquires its lock; a plain \<open>with cond:\<close> raises before
  the body runs (\<open>TypeError\<close> from Python 3.11 on, \<open>AttributeError\<close> in 3.9 and
  3.10, \<open>RuntimeError\<close> before).
\<close>

definition async_with_condition :: "condition \<Rightarrow> exn + unit" where
  "async_with_condition c = Inr ()"

definition sync_with_condition :: "condition \<Rightarrow> exn + unit" where
  "sync_with_condition c =
     Inl (TypeError ''Condition object does not support the context manager protocol'')"

text \<open>
  \<open>queue_event\<close>: the result is the exception that leaves the call, if any. The
  property never hands out \<open>None\<close>, so \<open>in (None, False)\<close> is the test for the
  sentinel.
\<close>

definition queue_event ::
  "module_config \<Rightarrow> event \<Rightarrow> module_state \<Rightarrow> exn option \<times> module_state" where
  "queue_event m event s =
     (let (q, s1) = incoming_event_queue s in
      case q of
        QFalse \<Rightarrow> (None, s1)
      | PriorityQueue xs \<Rightarrow>
          let ((acceptable, reason), s2) = event_precheck m event s1 in
          if \<not> acceptable then (None, s2)
          else
            let (q2, s3) = incoming_event_queue s2 in
            (case put_nowait event_lt q2 event of
               (Some (AttributeError a), q') \<Rightarrow> (None, s3\<lparr> incoming := Some q' \<rparr>)
             | (Some ex, q') \<Rightarrow> (Some ex, s3\<lparr> incoming := Some q' \<rparr>)
             | (None, q') \<Rightarrow>
                 (case async_with_condition EventReceived of
                    Inl ex \<Rightarrow> (Some ex, s3\<lparr> incoming := Some q' \<rparr>)
                  | Inr u \<Rightarrow>
                      (None, emit (Notified EventReceived) (s3\<lparr> incoming := Some q' \<rparr>)))))"

definition num_incoming_events :: "module_state \<Rightarrow> nat \<times> module_state" where
  "num_incoming_events s =
     (let (q, s1) = incoming_event_queue s in
      (case q of QFalse \<Rightarrow> 0 | PriorityQueue xs \<Rightarrow> length xs, s1))"

subsection \<open>The outgoing queue\<close>

text \<open>
  An outgoing item is the tuple \<open>(event, kwargs)\<close>, and \<open><\<close> on two tuples is
  Python's: the first components are compared by \<open>==\<close> (two events with the
  same fields are one event); when they differ, their \<open><\<close> decides, and \<open>None\<close>
  against an event is what the event class answers; when they are equal, the
  dictionaries decide: equal ones make the tuples equal, and \<open><\<close> on two
  dictionaries that differ raises \<open>TypeError\<close>.
\<close>

definition item_lt :: "scan \<Rightarrow> out_item \<Rightarrow> out_item \<Rightarrow> exn + bool" where
  "item_lt sc x y =
     (if fst x = fst y then
        (if snd x = snd y then Inr False
         else Inl (TypeError ''< not supported between instances of dict and dict''))
      else
        (case fst x of
           None \<Rightarrow> (case fst y of None \<Rightarrow> Inr False | Some b \<Rightarrow> none_lt_event sc b)
         | Some a \<Rightarrow> (case fst y of None \<Rightarrow> event_lt_none sc a | Some b \<Rightarrow> event_lt a b)))"

text \<open>
  \<open>queue_outgoing_event\<close> catches \<open>AttributeError\<close> alone; an exception of the
  comparison leaves the call, with the item in the queue.
\<close>

definition queue_outgoing_event ::
  "scan \<Rightarrow> event option \<Rightarrow> emit_kwargs \<Rightarrow> module_state \<Rightarrow> exn option \<times> module_state" where
  "queue_outgoing_event sc event kwargs s =
     (let (q, s1) = outgoing_event_queue s in
      case put_nowait (item_lt sc) q (event, kwargs) of
        (Some (AttributeError a), q') \<Rightarrow> (None, s1\<lparr> outgoing := Some q' \<rparr>)
      | (Some ex, q') \<Rightarrow> (Some ex, s1\<lparr> outgoing := Some q' \<rparr>)
      | (None, q') \<Rightarrow> (None, s1\<lparr> outgoing := Some q' \<rparr>))"

datatype call_result = Done | Suspended | Raised exn

text \<open>\<open>await queue.get()\<close> suspends the caller while the queue is empty.\<close>

definition dequeue_outgoing_event :: "module_state \<Rightarrow> call_result \<times> module_state" where
  "dequeue_outgoing_event s =
     (let (q, s1) = outgoing_event_queue s in
      case q of
        QFalse \<Rightarrow> (Raised (AttributeError ''get''), s1)
      | PriorityQueue [] \<Rightarrow> (Suspended, s1)
      | PriorityQueue (x # xs) \<Rightarrow>
          let s2 = s1\<lparr> outgoing := Some (PriorityQueue xs) \<rparr> in
          (case sync_with_condition EventDequeued of
             Inl ex \<Rightarrow> (Raised ex, s2)
           | Inr u \<Rightarrow> (Done, emit (Notified EventDequeued) s2)))"

subsection \<open>Minting and emitting events\<close>

text \<open>
  \<open>make_event\<close>: \<open>Inl\<close> is a raised exception, \<open>Inr None\<close> the bare \<open>return\<close>. A
  module object is true, so \<open>not event.module\<close> holds for \<open>None\<close> only.
\<close>

definition make_event ::
  "module_config \<Rightarrow> scan \<Rightarrow> event_args \<Rightarrow> bool \<Rightarrow> exn + event option" where
  "make_event m sc args raise_error =
     (case scan_make_event sc args of
        Inl (ValidationError e) \<Rightarrow>
          (if raise_error then Inl (ValidationError e) else Inr None)
      | Inl ex \<Rightarrow> Inl ex
      | Inr event \<Rightarrow>
          Inr (Some (if emodule event = None then set_emodule (name m) event else event)))"

text \<open>
  \<open>emit_event\<close>: the keyword arguments \<open>on_success_callback\<close>, \<open>abort_if\<close> and
  \<open>quick\<close> that are not \<open>None\<close> go to the outgoing item; the others, among them
  \<open>raise_error\<close> (absent: \<open>None\<close>), go to \<open>make_event\<close>.
\<close>

definition emit_event ::
  "module_config \<Rightarrow> scan \<Rightarrow> event_args \<Rightarrow> bool option \<Rightarrow> emit_kwargs \<Rightarrow> module_state
     \<Rightarrow> exn option \<times> module_state" where
  "emit_event m sc args raise_error kwargs s =
     (case make_event m sc args (case raise_error of None \<Rightarrow> False | Some b \<Rightarrow> b) of
        Inl ex \<Rightarrow> (Some ex, s)
      | Inr event \<Rightarrow> queue_outgoing_event sc event kwargs s)"

subsection \<open>Batching\<close>

text \<open>The number of items in the incoming queue, the measure of the loop below.\<close>

definition queue_length :: "module_state \<Rightarrow> nat" where
  "queue_length s = (case incoming s of Some (PriorityQueue xs) \<Rightarrow> length xs | _ \<Rightarrow> 0)"

text \<open>
  The loop of \<open>events_waiting\<close>, with the local variables \<open>events\<close> and \<open>finish\<close> as
  arguments. \<open>report\<close> is not assigned in the loop.
\<close>

function events_waiting_loop ::
  "module_config \<Rightarrow> scan \<Rightarrow> event list \<Rightarrow> bool \<Rightarrow> module_state
     \<Rightarrow> (exn + (event list \<times> bool)) \<times> module_state" where
  "events_waiting_loop m sc events finish s =
     (case incoming_event_queue s of
        (QFalse, s1) \<Rightarrow> (Inr (events, finish), s1)
      | (PriorityQueue q, s1) \<Rightarrow>
          if int (length events) > batch_size m then (Inr (events, finish), s1)
          else
            (case get_nowait q of
               Inl ex \<Rightarrow> (Inr (events, finish), s1)
             | Inr (event, q') \<Rightarrow>
                 (case event_postcheck m sc event (s1\<lparr> incoming := Some (PriorityQueue q') \<rparr>) of
                    Inl ex \<Rightarrow> (Inl ex, s1\<lparr> incoming := Some (PriorityQueue q') \<rparr>)
                  | Inr ((acceptable, reason), event', s2) \<Rightarrow>
                      if acceptable then
                        if etype event' = ''FINISHED''
                        then events_waiting_loop m sc events True s2
                        else events_waiting_loop m sc (events @ [event']) finish
                               (emit (EventConsumed event') s2)
                      else events_waiting_loop m sc events finish s2)))"
  by pat_completeness auto

termination events_waiting_loop
proof (relation "measure (\<lambda>(m, sc, events, finish, s). queue_length s)", goal_cases)
  case 1
  show ?case by simp
next
  case (2 m sc events finish s qs s1 q r event q' res verdict rest acceptable reason event' s2)
  then show ?case
    by (cases q)
       (auto simp: queue_length_def incoming_event_queue_def event_postcheck_def emit_def
             split: option.splits if_splits sum.splits)
next
  case (3 m sc events finish s qs s1 q r event q' res verdict rest acceptable reason event' s2)
  then show ?case
    by (cases q)
       (auto simp: queue_length_def incoming_event_queue_def event_postcheck_def emit_def
             split: option.splits if_splits sum.splits)
next
  case (4 m sc events finish s qs s1 q r event q' res verdict rest acceptable reason event' s2)
  then show ?case
    by (cases q)
       (auto simp: queue_length_def incoming_event_queue_def event_postcheck_def emit_def
             split: option.splits if_splits sum.splits)
qed

declare events_waiting_loop.simps [simp del]

text \<open>\<open>events_waiting\<close> returns \<open>events, finish, report\<close>, with \<open>report\<close> as initialised.\<close>

definition events_waiting ::
  "module_config \<Rightarrow> scan \<Rightarrow> module_state
     \<Rightarrow> (exn + (event list \<times> bool \<times> bool)) \<times> module_state" where
  "events_waiting m sc s =
     (case events_waiting_loop m sc [] False s of
        (Inl ex, s1) \<Rightarrow> (Inl ex, s1)
      | (Inr (events, finish), s1) \<Rightarrow> (Inr (events, finish, False), s1))"

text \<open>
  \<open>_handle_batch\<close>: the value is \<open>None\<close> for the bare \<open>return\<close>, \<open>Some submitted\<close>
  otherwise. \<open>handle_batch\<close> runs under \<open>acatch\<close> and the task counter, \<open>finish\<close>
  and \<open>report\<close> under \<open>acatch\<close> alone.
\<close>

definition run_handle_batch ::
  "module_config \<Rightarrow> scan \<Rightarrow> module_state \<Rightarrow> (exn + bool option) \<times> module_state" where
  "run_handle_batch m sc s =
     (if batch_size m \<le> 1 then (Inr None, s)
      else
        let (n, s1) = num_incoming_events s in
        if n > 0 then
          (case events_waiting m sc s1 of
             (Inl ex, s2) \<Rightarrow> (Inl ex, s2)
           | (Inr (events, finish, report), s2) \<Rightarrow>
               if \<not> errored s2 then
                 let s3 = (if events \<noteq> []
                           then acatch (with_task_counter
                                  (invoke (HandleBatch events) (cb_handle_batch m events)) s2)
                           else s2);
                     s4 = (if finish then acatch (invoke Finish (cb_finish m) s3)
                           else if report then acatch (invoke Report (cb_report m) s3)
                           else s3)
                 in (Inr (Some (events \<noteq> [])), s4)
               else (Inr (Some False), s2))
        else (Inr (Some False), s1))"

subsection \<open>Setup\<close>

text \<open>
  The dictionary \<open>status_codes\<close>. Python's \<open>0\<close> and \<open>1\<close> are equal to \<open>False\<close> and
  \<open>True\<close> and hash alike, so they find the same entries; another integer is
  not a key.
\<close>

fun status_codes :: "status \<Rightarrow> string option" where
  "status_codes (SBool False) = Some ''hard-fail''"
| "status_codes SNone = Some ''soft-fail''"
| "status_codes (SBool True) = Some ''success''"
| "status_codes (SInt i) =
     (if i = 0 then Some ''hard-fail'' else if i = 1 then Some ''success'' else None)"

fun status_repr :: "status \<Rightarrow> string" where
  "status_repr SNone = ''None''"
| "status_repr (SBool b) = (if b then ''True'' else ''False'')"
| "status_repr (SInt i) = str_int i"

fun is_WordlistError :: "exn \<Rightarrow> bool" where
  "is_WordlistError (WordlistError x) = True"
| "is_WordlistError ex = False"

text \<open>
  The \<open>except Exception\<close> branch of \<open>_setup\<close>; \<open>status\<close> is the value the variable
  has when the exception is caught.
\<close>

definition setup_except ::
  "module_config \<Rightarrow> status \<Rightarrow> exn \<Rightarrow> module_state \<Rightarrow> (string \<times> status \<times> string) \<times> module_state" where
  "setup_except m status e s =
     (let s1 = set_error_state None s in
      ((name m, if is_WordlistError e then SNone else status, exn_str e), s1))"

text \<open>
  \<open>_setup\<close>: \<open>status\<close> starts as \<open>False\<close>. A pair is taken apart; any other result
  is assigned to \<open>status\<close> before \<open>status_codes[status]\<close> is looked up, so a
  \<open>KeyError\<close> from the lookup is caught with \<open>status\<close> already set.
\<close>

definition run_setup ::
  "module_config \<Rightarrow> module_state \<Rightarrow> (string \<times> status \<times> string) \<times> module_state" where
  "run_setup m s =
     (case cb_setup m of
        Raise e \<Rightarrow> setup_except m (SBool False) e s
      | Return2 status msg \<Rightarrow> ((name m, status, msg), s)
      | Return result \<Rightarrow>
          (case status_codes result of
             Some msg \<Rightarrow> ((name m, result, msg), s)
           | None \<Rightarrow> setup_except m result (KeyError (status_repr result)) s))"

subsection \<open>The worker\<close>

datatype worker_status =
    Exited
  | AwaitDequeued
  | AwaitReceived
  | AwaitGet
  | ReturnedBadState
  | Crashed exn
  | Looping

text \<open>
  The dispatch arm of one iteration of \<open>_worker\<close>. \<open>AwaitReceived\<close> and \<open>AwaitGet\<close>
  are the points where the task is suspended; \<open>Crashed\<close> is an exception that
  reaches the \<open>acatch\<close> around the loop and ends it.
\<close>

definition worker_dispatch ::
  "module_config \<Rightarrow> scan \<Rightarrow> module_state \<Rightarrow> worker_status \<times> module_state" where
  "worker_dispatch m sc s =
     (if batch_size m > 1 then
        (case run_handle_batch m sc s of
           (Inl ex, s1) \<Rightarrow> (Crashed ex, s1)
         | (Inr submitted, s1) \<Rightarrow>
             if submitted = Some True then (Looping, s1) else (AwaitReceived, s1))
      else
        let (q, s1) = incoming_event_queue s in
        case q of
          QFalse \<Rightarrow> (ReturnedBadState, s1)
        | PriorityQueue [] \<Rightarrow> (AwaitGet, s1)
        | PriorityQueue (event # q') \<Rightarrow>
            (case event_postcheck m sc event (s1\<lparr> incoming := Some (PriorityQueue q') \<rparr>) of
               Inl ex \<Rightarrow> (Crashed ex, s1\<lparr> incoming := Some (PriorityQueue q') \<rparr>)
             | Inr ((acceptable, reason), event', s2) \<Rightarrow>
                 if acceptable then
                   if etype event' = ''FINISHED''
                   then (Looping, acatch (with_task_counter (invoke Finish (cb_finish m)) s2))
                   else (Looping,
                         acatch (with_task_counter
                           (invoke (HandleEvent event') (cb_handle_event m event'))
                           (emit (EventConsumed event') s2)))
                 else (Looping, s2)))"

text \<open>
  One iteration of the loop of \<open>_worker\<close>, up to its next suspension. The
  backpressure gate reads the outgoing queue only when \<open>_qsize > 0\<close>; a worker
  woken at \<open>AwaitDequeued\<close> goes on with \<open>worker_dispatch\<close>.
\<close>

definition worker_iteration ::
  "module_config \<Rightarrow> scan \<Rightarrow> module_state \<Rightarrow> worker_status \<times> module_state" where
  "worker_iteration m sc s =
     (if stopping sc then (Exited, s)
      else if qsize_limit m > 0 then
        let (q, s1) = outgoing_event_queue s in
        (case qsize q of
           Inl ex \<Rightarrow> (Crashed ex, s1)
         | Inr n \<Rightarrow>
             if int n \<ge> qsize_limit m then (AwaitDequeued, s1) else worker_dispatch m sc s1)
      else worker_dispatch m sc s)"

subsection \<open>Cleanup\<close>

fun run_callbacks :: "nat \<Rightarrow> exn option list \<Rightarrow> module_state \<Rightarrow> module_state" where
  "run_callbacks i [] s = s"
| "run_callbacks i (c # cs) s =
     run_callbacks (Suc i) cs (acatch (with_task_counter (invoke (Cleanup i) c) s))"

definition run_cleanup :: "module_config \<Rightarrow> module_state \<Rightarrow> module_state" where
  "run_cleanup m s =
     (if \<not> cleanedup s
      then run_callbacks 0 (cb_cleanup m # cleanup_callbacks s) (s\<lparr> cleanedup := True \<rparr>)
      else s)"

subsection \<open>Predicates on results, and concrete inputs\<close>

text \<open>A post-check result that is a rejection.\<close>

definition rejects :: "exn + ((bool \<times> string) \<times> event \<times> module_state) \<Rightarrow> bool" where
  "rejects r = (case r of Inl ex \<Rightarrow> False | Inr ((acceptable, reason), e, s) \<Rightarrow> \<not> acceptable)"

text \<open>The class attributes of \<open>BaseModule\<close> itself, with callbacks that do nothing.\<close>

definition base_module :: module_config where
  "base_module =
     \<lparr> name = ''base'', watched_events = [], flags = [], scope_distance_modifier = Some 0,
       target_only = False, in_scope_only = False, batch_size = 1, batch_wait = 10,
       qsize_limit = 0, mtype = ''scan'',
       cb_setup = Return (SBool True),
       cb_filter_event = (\<lambda>event. Return (SBool True)),
       cb_handle_event = (\<lambda>event. None),
       cb_handle_batch = (\<lambda>events. None),
       cb_finish = None, cb_report = None, cb_cleanup = None \<rparr>"

text \<open>
  A scan that searches one step beyond its targets and mints no valid event;
  its events answer \<open>None < e\<close> with true and \<open>e < None\<close> with false.
\<close>

definition demo_scan :: scan where
  "demo_scan =
     \<lparr> stopping = False, scope_search_distance = 1, whitelist = (\<lambda>event. True),
       scan_make_event = (\<lambda>args. Inl (ValidationError ''invalid event data'')),
       none_lt_event = (\<lambda>event. Inr True), event_lt_none = (\<lambda>event. Inr False) \<rparr>"

definition dns_event :: "int \<Rightarrow> event" where
  "dns_event d = Event ''DNS_NAME'' d {} None (Some ''dnsresolve'') 3 False ''evilcorp.com''"

definition crashing_filter_module :: module_config where
  "crashing_filter_module =
     base_module\<lparr> cb_filter_event := (\<lambda>event. Raise (OtherError ''filter crashed'')) \<rparr>"

definition portscan_module :: module_config where
  "portscan_module =
     base_module\<lparr> name := ''nmap'', watched_events := [''IP_ADDRESS'', ''DNS_NAME'', ''IP_RANGE''],
                  flags := [''active''] \<rparr>"

definition ip_range_event :: event where
  "ip_range_event = Event ''IP_RANGE'' 0 {''target''} None (Some ''TARGET'') 3 False ''192.168.0.0/30''"

definition speculated_ip :: event where
  "speculated_ip =
     Event ''IP_ADDRESS'' 0 {} (Some ip_range_event) (Some ''speculate'') 4 False ''192.168.0.1''"

text \<open>
  A quarantined module: the errored flag is set and the incoming queue is the
  disabled sentinel.
\<close>

definition quarantined :: "module_state \<Rightarrow> bool" where
  "quarantined s = (errored s \<and> incoming s = Some QFalse)"

text \<open>
  The entry points of the runtime, as the controller and the user code call them
  one after the other, and the state each leaves behind.
\<close>

datatype operation =
    OpSetErrorState "string option"
  | OpQueueEvent event
  | OpEmitEvent event_args "bool option" emit_kwargs
  | OpDequeueOutgoing
  | OpWorkerIteration
  | OpSetup
  | OpCleanup

fun step :: "module_config \<Rightarrow> scan \<Rightarrow> operation \<Rightarrow> module_state \<Rightarrow> module_state" where
  "step m sc (OpSetErrorState message) s = set_error_state message s"
| "step m sc (OpQueueEvent event) s = snd (queue_event m event s)"
| "step m sc (OpEmitEvent args raise_error kwargs) s = snd (emit_event m sc args raise_error kwargs s)"
| "step m sc OpDequeueOutgoing s = snd (dequeue_outgoing_event s)"
| "step m sc OpWorkerIteration s = snd (worker_iteration m sc s)"
| "step m sc OpSetup s = snd (run_setup m s)"
| "step m sc OpCleanup s = run_cleanup m s"

text \<open>
  The user callbacks the runtime has invoked so far, oldest first; the batches
  among them that went to \<open>handle_batch\<close>; the invocations of \<open>finish\<close> and
  \<open>report\<close>.
\<close>

fun is_invocation :: "effect \<Rightarrow> bool" where
  "is_invocation (Invoked c n) = True"
| "is_invocation x = False"

definition invocations :: "module_state \<Rightarrow> effect list" where
  "invocations s = filter is_invocation (effects s)"

fun handle_batches :: "effect list \<Rightarrow> event list list" where
  "handle_batches [] = []"
| "handle_batches (Invoked (HandleBatch events) n # xs) = events # handle_batches xs"
| "handle_batches (x # xs) = handle_batches xs"

definition handle_batch_calls :: "module_state \<Rightarrow> event list list" where
  "handle_batch_calls s = handle_batches (invocations s)"



text \<open>The items waiting in the incoming queue, in the order \<open>get_nowait\<close> hands them out.\<close>

definition queue_items :: "module_state \<Rightarrow> event list" where
  "queue_items s = (case incoming s of Some (PriorityQueue xs) \<Rightarrow> xs | _ \<Rightarrow> [])"


text \<open>
  \<open>postcheck_accepts m sc e e'\<close>: \<open>_event_postcheck\<close> accepts the event \<open>e\<close> and
  leaves it as \<open>e'\<close> (the same event, with the latch set by an output module).
  The verdict does not depend on the state of the module.
\<close>

definition postcheck_accepts :: "module_config \<Rightarrow> scan \<Rightarrow> event \<Rightarrow> event \<Rightarrow> bool" where
  "postcheck_accepts m sc e e' =
     (case event_postcheck m sc e init of
        Inl ex \<Rightarrow> False
      | Inr ((acceptable, reason), e2, s2) \<Rightarrow> acceptable \<and> e2 = e')"

text \<open>What the loop of \<open>events_waiting\<close> keeps, from the queue items \<open>xs\<close> it starts with.\<close>

definition loop_inv ::
  "module_config \<Rightarrow> scan \<Rightarrow> event list \<Rightarrow> event list \<Rightarrow> module_state \<Rightarrow> event list \<Rightarrow> module_state \<Rightarrow> bool" where
  "loop_inv m sc xs events s events' s' =
     ((int (length events) \<le> batch_size m + 1 \<longrightarrow> int (length events') \<le> batch_size m + 1)
      \<and> list_all (\<lambda>e'. e' \<in> set events
                         \<or> (etype e' \<noteq> ''FINISHED'' \<and> list_ex (\<lambda>e. postcheck_accepts m sc e e') xs)) events'
      \<and> errored s' = errored s \<and> task_counter s' = task_counter s
      \<and> filter is_invocation (effects s') = filter is_invocation (effects s))"


text \<open>Modules, events and states to run the functions on.\<close>

definition hard_failing_module :: module_config where
  "hard_failing_module = base_module\<lparr> cb_setup := Return (SBool False) \<rparr>"

definition wordlist_module :: module_config where
  "wordlist_module = base_module\<lparr> cb_setup := Raise (WordlistError ''missing list'') \<rparr>"

definition batch_module :: module_config where
  "batch_module = base_module\<lparr> batch_size := 2 \<rparr>"

definition finished_event :: event where
  "finished_event = Event ''FINISHED'' 0 {} None None 3 False ''''"

definition finished_queued :: module_state where
  "finished_queued = init\<lparr> incoming := Some (PriorityQueue [finished_event]) \<rparr>"

definition two_queued :: module_state where
  "two_queued = init\<lparr> incoming := Some (PriorityQueue [dns_event 0, dns_event 1]) \<rparr>"

definition batch_queued :: module_state where
  "batch_queued =
     init\<lparr> incoming := Some (PriorityQueue [dns_event 0, dns_event 5, finished_event, dns_event 1]) \<rparr>"


definition no_kwargs :: emit_kwargs where
  "no_kwargs = \<lparr> on_success_callback = None, abort_if = None, quick = None \<rparr>"

definition one_outgoing :: module_state where
  "one_outgoing = init\<lparr> outgoing := Some (PriorityQueue [(Some (dns_event 0), no_kwargs)]) \<rparr>"

section \<open>Properties\<close>

subsection \<open>Admission filter\<close>

text \<open>
  C6, scope gating. For an event that is not \<open>FINISHED\<close> and a module whose
  \<open>_type\<close> is not \<open>output\<close>: post-check rejects the event when the module is
  \<open>in_scope_only\<close> and the scope distance is positive; and when
  \<open>scope_distance_modifier\<close> is some \<open>d\<close>, the property \<open>max_scope_distance\<close> is
  \<open>0\<close> for an \<open>in_scope_only\<close> or \<open>target_only\<close> module and
  \<open>max(0, scan.scope_search_distance + d)\<close> otherwise, and post-check rejects the
  event when its scope distance is negative or exceeds \<open>max_scope_distance\<close>. An
  event that fails the active/whitelist check is rejected before, so that check
  is no hypothesis.
\<close>

theorem scope_gating:
  assumes "etype e \<noteq> ''FINISHED''" and "mtype m \<noteq> ''output''"
  shows "(in_scope_only m \<and> scope_distance e > 0 \<longrightarrow> rejects (event_postcheck m sc e s))
       \<and> (\<forall>d. scope_distance_modifier m = Some d \<longrightarrow>
             max_scope_distance m sc
               = Inr (if in_scope_only m \<or> target_only m then 0
                      else max 0 (scope_search_distance sc + d))
             \<and> (scope_distance e < 0
                  \<or> scope_distance e > (if in_scope_only m \<or> target_only m then 0
                                          else max 0 (scope_search_distance sc + d))
                \<longrightarrow> rejects (event_postcheck m sc e s)))"
  using assms
  by (auto simp: rejects_def event_postcheck_def check_scope_distance_def max_scope_distance_def)

theorem scope_gating_witness:
  "etype (dns_event 2) \<noteq> ''FINISHED'' \<and> mtype base_module \<noteq> ''output''
   \<and> scope_distance_modifier base_module = Some 0
   \<and> max_scope_distance base_module demo_scan = Inr 1
   \<and> scope_distance (dns_event 2) > 1
   \<and> rejects (event_postcheck base_module demo_scan (dns_event 2) init)"
  using scope_gating [of "dns_event 2" base_module demo_scan init]
  by (simp add: dns_event_def base_module_def demo_scan_def)

text \<open>
  C10, a crashing filter accepts. For an event that is not \<open>FINISHED\<close> and that
  passes the whitelist and the scope checks: when the user's \<open>filter_event\<close>
  raises, \<open>acatch\<close> suppresses the exception, the rejection inside the block is
  skipped, and \<open>_event_postcheck\<close> returns \<open>(True, "")\<close>.
\<close>

theorem crashing_filter_accepts:
  assumes "etype e \<noteq> ''FINISHED''"
    and "\<not> (''active'' \<in> set (flags m) \<and> ''target'' \<in> tags e \<and> \<not> whitelist sc e)"
    and "check_scope_distance m sc e = Inr None"
    and "cb_filter_event m e = Raise ex"
  shows "map_sum id fst (event_postcheck m sc e s) = Inr (True, '''')"
  using assms by (simp add: event_postcheck_def custom_filtering_def)

theorem crashing_filter_accepts_witness:
  "etype (dns_event 0) \<noteq> ''FINISHED''
   \<and> check_scope_distance crashing_filter_module demo_scan (dns_event 0) = Inr None
   \<and> cb_filter_event crashing_filter_module (dns_event 0) = Raise (OtherError ''filter crashed'')
   \<and> map_sum id fst (event_postcheck crashing_filter_module demo_scan (dns_event 0) init)
       = Inr (True, '''')"
  using crashing_filter_accepts
          [of "dns_event 0" crashing_filter_module demo_scan "OtherError ''filter crashed''" init]
  by (simp add: dns_event_def crashing_filter_module_def base_module_def demo_scan_def
        check_scope_distance_def max_scope_distance_def)

text \<open>
  C7, CIDR de-duplication. For an \<open>IP_ADDRESS\<close> event whose source is an
  \<open>IP_RANGE\<close> and whose producing module is \<open>speculate\<close>, and a module that is not
  errored, is not \<open>speculate\<close>, does not reject the event by an earlier rule of the
  pre-check (it watches the type, and the event has the \<open>target\<close> tag if the
  module is \<open>target_only\<close>) and has both \<open>IP_RANGE\<close> and \<open>IP_ADDRESS\<close> in
  \<open>watched_events\<close>: \<open>_event_precheck\<close> returns
  \<open>(False, "module consumes IP ranges directly")\<close>.
\<close>

theorem cidr_dedup:
  assumes "etype e = ''IP_ADDRESS''"
    and "source_type e = ''IP_RANGE''"
    and "str_module e = ''speculate''"
    and "\<not> errored s"
    and "name m \<noteq> ''speculate''"
    and "''*'' \<in> fst (get_watched_events m s) \<or> ''IP_ADDRESS'' \<in> fst (get_watched_events m s)"
    and "target_only m \<longrightarrow> ''target'' \<in> tags e"
    and "''IP_RANGE'' \<in> set (watched_events m)"
    and "''IP_ADDRESS'' \<in> set (watched_events m)"
  shows "fst (event_precheck m e s) = (False, ''module consumes IP ranges directly'')"
  using assms
  by (cases "get_watched_events m s") (auto simp: event_precheck_def startswith_def)

theorem cidr_dedup_witness:
  "etype speculated_ip = ''IP_ADDRESS'' \<and> source_type speculated_ip = ''IP_RANGE''
   \<and> str_module speculated_ip = ''speculate'' \<and> \<not> errored init
   \<and> name portscan_module \<noteq> ''speculate''
   \<and> ''IP_ADDRESS'' \<in> fst (get_watched_events portscan_module init)
   \<and> \<not> target_only portscan_module
   \<and> ''IP_RANGE'' \<in> set (watched_events portscan_module)
   \<and> ''IP_ADDRESS'' \<in> set (watched_events portscan_module)
   \<and> fst (event_precheck portscan_module speculated_ip init)
       = (False, ''module consumes IP ranges directly'')"
  using cidr_dedup [of speculated_ip init portscan_module]
  by (simp add: speculated_ip_def ip_range_event_def portscan_module_def base_module_def
        init_def source_type_def str_module_def get_watched_events_def)

subsection \<open>Quarantine\<close>

lemma emptying_empty: "emptying xs = []"
  by (induction xs) (simp_all add: emptying.simps)

lemma set_error_state_first:
  "\<not> errored s \<Longrightarrow>
     set_error_state msg s
       = s\<lparr> errored := True, incoming := Some QFalse,
            replaced_queue := (if incoming s = Some QFalse then replaced_queue s else Some []) \<rparr>"
  by (cases "incoming s"; cases "the (incoming s)")
     (auto simp: set_error_state_def incoming_event_queue_def emptying_empty)

lemma set_error_state_drains:
  "\<not> errored s \<Longrightarrow> incoming s = Some (PriorityQueue xs) \<Longrightarrow>
     replaced_queue (set_error_state msg s) = Some (emptying xs)"
  by (simp add: set_error_state_def incoming_event_queue_def)

lemma set_error_state_quarantined: "quarantined s \<Longrightarrow> set_error_state msg s = s"
  by (simp add: set_error_state_def quarantined_def)

lemma set_error_state_quarantines:
  assumes "errored s \<longrightarrow> incoming s = Some QFalse"
  shows "quarantined (set_error_state msg s)"
proof (cases "errored s")
  case True
  with assms show ?thesis by (simp add: set_error_state_def quarantined_def)
next
  case False
  then show ?thesis by (simp add: set_error_state_first quarantined_def)
qed

lemma queue_event_quarantined: "quarantined s \<Longrightarrow> queue_event m e s = (None, s)"
  by (simp add: queue_event_def quarantined_def incoming_event_queue_def)

lemma queue_outgoing_event_frame:
  "errored (snd (queue_outgoing_event sc ev kw s)) = errored s"
  "incoming (snd (queue_outgoing_event sc ev kw s)) = incoming s"
  by (auto simp: queue_outgoing_event_def outgoing_event_queue_def
           split: option.splits prod.splits exn.splits)

lemma emit_event_frame:
  "errored (snd (emit_event m sc args re kw s)) = errored s"
  "incoming (snd (emit_event m sc args re kw s)) = incoming s"
  by (auto simp: emit_event_def queue_outgoing_event_frame split: sum.splits)

lemma dequeue_outgoing_event_frame:
  "errored (snd (dequeue_outgoing_event s)) = errored s"
  "incoming (snd (dequeue_outgoing_event s)) = incoming s"
  by (auto simp: dequeue_outgoing_event_def outgoing_event_queue_def sync_with_condition_def emit_def
           split: option.splits queue.splits list.splits)

lemma run_callbacks_errored: "errored (run_callbacks i cs s) = errored s"
  by (induction cs arbitrary: i s)
     (simp_all add: acatch_def with_task_counter_def invoke_def emit_def)

lemma run_callbacks_incoming: "incoming (run_callbacks i cs s) = incoming s"
  by (induction cs arbitrary: i s)
     (simp_all add: acatch_def with_task_counter_def invoke_def emit_def)

lemma run_cleanup_frame:
  "errored (run_cleanup m s) = errored s" "incoming (run_cleanup m s) = incoming s"
  by (simp_all add: run_cleanup_def run_callbacks_errored run_callbacks_incoming
        del: run_callbacks.simps)

lemma run_setup_quarantined: "quarantined s \<Longrightarrow> snd (run_setup m s) = s"
  by (auto simp: run_setup_def setup_except_def set_error_state_quarantined
           split: callback_result.splits option.splits)

lemma run_handle_batch_quarantined:
  "quarantined s \<Longrightarrow> snd (run_handle_batch m sc s) = s"
  by (simp add: run_handle_batch_def num_incoming_events_def incoming_event_queue_def
        quarantined_def)

lemma worker_dispatch_quarantined:
  "quarantined s \<Longrightarrow> snd (worker_dispatch m sc s) = s"
  using run_handle_batch_quarantined [of s m sc]
  by (auto simp: worker_dispatch_def incoming_event_queue_def quarantined_def
           split: prod.splits sum.splits)

lemma worker_iteration_quarantined:
  "quarantined s \<Longrightarrow> quarantined (snd (worker_iteration m sc s))"
  using worker_dispatch_quarantined [of s m sc]
        worker_dispatch_quarantined [of "s\<lparr> outgoing := Some (PriorityQueue []) \<rparr>" m sc]
  by (auto simp: worker_iteration_def outgoing_event_queue_def quarantined_def
           split: option.splits sum.splits)

lemma step_quarantined: "quarantined s \<Longrightarrow> quarantined (step m sc op s)"
proof (cases op)
  case (OpEmitEvent args re kw)
  assume "quarantined s"
  with OpEmitEvent show ?thesis by (simp add: quarantined_def emit_event_frame)
next
  case OpDequeueOutgoing
  assume "quarantined s"
  with OpDequeueOutgoing show ?thesis by (simp add: quarantined_def dequeue_outgoing_event_frame)
next
  case OpCleanup
  assume "quarantined s"
  with OpCleanup show ?thesis by (simp add: quarantined_def run_cleanup_frame)
qed (simp_all add: set_error_state_quarantined queue_event_quarantined
       worker_iteration_quarantined run_setup_quarantined)

lemma fold_step_quarantined: "quarantined s \<Longrightarrow> quarantined (fold (step m sc) ops s)"
  by (induction ops arbitrary: s) (simp_all add: step_quarantined)

text \<open>
  C2, quarantine. The first call of \<open>set_error_state\<close> (the module is not yet
  errored) sets \<open>errored\<close> and replaces the incoming queue by the sentinel
  \<open>False\<close>, leaving the rest of the state as it was. The queue object it
  replaces has been emptied by then: unless the sentinel was in place already,
  that object holds no item after the call, whatever it held before, and what
  it holds is what the emptying loop left of its items. A later call of
  \<open>set_error_state\<close> changes nothing. After quarantine \<open>queue_event\<close> returns
  without raising and leaves the state, and with it the queue, as it was.
  Whatever entry points of the runtime are called afterwards, the module stays
  errored and its queue disabled.
\<close>

theorem quarantine:
  assumes "\<not> errored s"
  shows "set_error_state msg s
           = s\<lparr> errored := True, incoming := Some QFalse,
                replaced_queue := (if incoming s = Some QFalse then replaced_queue s else Some []) \<rparr>
       \<and> (incoming s = Some (PriorityQueue xs)
            \<longrightarrow> replaced_queue (set_error_state msg s) = Some (emptying xs))
       \<and> emptying (xs :: event list) = []
       \<and> set_error_state msg' (set_error_state msg s) = set_error_state msg s
       \<and> queue_event m e (set_error_state msg s) = (None, set_error_state msg s)
       \<and> quarantined (fold (step m sc) ops (set_error_state msg s))"
proof -
  have q: "quarantined (set_error_state msg s)"
    using assms by (simp add: set_error_state_first quarantined_def)
  have first: "set_error_state msg s
           = s\<lparr> errored := True, incoming := Some QFalse,
                replaced_queue := (if incoming s = Some QFalse then replaced_queue s else Some []) \<rparr>"
    using assms by (rule set_error_state_first)
  have drains: "incoming s = Some (PriorityQueue xs)
            \<longrightarrow> replaced_queue (set_error_state msg s) = Some (emptying xs)"
    using assms by (simp add: set_error_state_drains)
  have again: "set_error_state msg' (set_error_state msg s) = set_error_state msg s"
    using q by (rule set_error_state_quarantined)
  have qe: "queue_event m e (set_error_state msg s) = (None, set_error_state msg s)"
    using q by (rule queue_event_quarantined)
  have later: "quarantined (fold (step m sc) ops (set_error_state msg s))"
    using q by (rule fold_step_quarantined)
  from first drains emptying_empty [of xs] again qe later show ?thesis
    by blast
qed

theorem quarantine_witness:
  "\<not> errored two_queued
   \<and> incoming two_queued = Some (PriorityQueue [dns_event 0, dns_event 1])
   \<and> set_error_state None two_queued
       = two_queued\<lparr> errored := True, incoming := Some QFalse, replaced_queue := Some [] \<rparr>
   \<and> replaced_queue (set_error_state None two_queued)
       = Some (emptying [dns_event 0, dns_event 1])
   \<and> queue_event base_module (dns_event 0) (set_error_state None two_queued)
       = (None, set_error_state None two_queued)"
proof -
  have h: "\<not> errored two_queued"
    by (simp add: two_queued_def init_def)
  have i: "incoming two_queued = Some (PriorityQueue [dns_event 0, dns_event 1])"
    by (simp add: two_queued_def)
  have n: "(if incoming two_queued = Some QFalse then replaced_queue two_queued else Some [])
             = Some []"
    by (simp add: i)
  show ?thesis
    using h i
      quarantine [OF h, of None "[dns_event 0, dns_event 1]" None base_module "dns_event 0"
                    demo_scan "[]"]
    unfolding n by blast
qed

subsection \<open>Setup\<close>

text \<open>
  C1, the setup protocol, as amended. Quarantined states are the only errored
  states the runtime produces, which is the hypothesis. \<open>_setup\<close> maps a return of
  \<open>True\<close> to success, of \<open>False\<close> to hard-fail and of \<open>None\<close> to soft-fail (the
  integers \<open>1\<close> and \<open>0\<close> are the keys \<open>True\<close> and \<open>False\<close>), and a pair
  \<open>(status, message)\<close> to that status and message; on each of these returned
  values it leaves the state of the module as it was. When \<open>setup\<close> raises a
  \<open>WordlistError\<close> the status is \<open>None\<close>, and when it raises another exception
  the status is \<open>False\<close>; when \<open>setup\<close> returns an integer other than \<open>0\<close> and
  \<open>1\<close>, the lookup in \<open>status_codes\<close> raises \<open>KeyError\<close> inside \<open>_setup\<close>, and
  the status is the integer returned. In these three cases, which are all that
  pass through the \<open>except\<close> branch, the state is what \<open>set_error_state\<close> leaves:
  the module is errored and its incoming queue disabled.
\<close>

theorem setup_protocol:
  assumes "errored s \<longrightarrow> incoming s = Some QFalse"
  shows "(cb_setup m = Return (SBool True)
            \<longrightarrow> run_setup m s = ((name m, SBool True, ''success''), s))
       \<and> (cb_setup m = Return (SBool False)
            \<longrightarrow> run_setup m s = ((name m, SBool False, ''hard-fail''), s))
       \<and> (cb_setup m = Return SNone
            \<longrightarrow> run_setup m s = ((name m, SNone, ''soft-fail''), s))
       \<and> (cb_setup m = Raise (WordlistError x)
            \<longrightarrow> fst (run_setup m s) = (name m, SNone, x)
                \<and> errored (snd (run_setup m s))
                \<and> incoming (snd (run_setup m s)) = Some QFalse)
       \<and> (cb_setup m = Raise e \<and> \<not> is_WordlistError e
            \<longrightarrow> fst (run_setup m s) = (name m, SBool False, exn_str e)
                \<and> errored (snd (run_setup m s))
                \<and> incoming (snd (run_setup m s)) = Some QFalse)
       \<and> (cb_setup m = Return2 status message
            \<longrightarrow> run_setup m s = ((name m, status, message), s))
       \<and> (cb_setup m = Return (SInt 1)
            \<longrightarrow> run_setup m s = ((name m, SInt 1, ''success''), s))
       \<and> (cb_setup m = Return (SInt 0)
            \<longrightarrow> run_setup m s = ((name m, SInt 0, ''hard-fail''), s))
       \<and> (cb_setup m = Return (SInt i) \<and> i \<noteq> 0 \<and> i \<noteq> 1
            \<longrightarrow> fst (run_setup m s) = (name m, SInt i, str_int i)
                \<and> errored (snd (run_setup m s))
                \<and> incoming (snd (run_setup m s)) = Some QFalse)
       \<and> ((\<exists>ex. cb_setup m = Raise ex) \<or> (\<exists>k. cb_setup m = Return (SInt k) \<and> k \<noteq> 0 \<and> k \<noteq> 1)
            \<longrightarrow> snd (run_setup m s) = set_error_state None s)"
  using set_error_state_quarantines [OF assms, of None]
  by (auto simp: run_setup_def setup_except_def quarantined_def)

theorem setup_protocol_witness:
  "\<not> errored init
   \<and> cb_setup wordlist_module = Raise (WordlistError ''missing list'')
   \<and> fst (run_setup wordlist_module init) = (name wordlist_module, SNone, ''missing list'')
   \<and> errored (snd (run_setup wordlist_module init))
   \<and> incoming (snd (run_setup wordlist_module init)) = Some QFalse"
proof -
  have h: "errored init \<longrightarrow> incoming init = Some QFalse"
    by (simp add: init_def)
  have c: "cb_setup wordlist_module = Raise (WordlistError ''missing list'')"
    by (simp add: wordlist_module_def)
  have n: "\<not> errored init"
    by (simp add: init_def)
  show ?thesis
    using n c setup_protocol [OF h, of wordlist_module "''missing list''"]
    by blast
qed

text \<open>
  The claim as stated fails on a returned failure: \<open>setup\<close> returns \<open>False\<close>,
  \<open>_setup\<close> reports hard-fail, and the module is neither errored nor is its
  queue disabled.
\<close>

theorem setup_returned_failure_counterexample:
  "fst (run_setup hard_failing_module init) = (''base'', SBool False, ''hard-fail'')
   \<and> \<not> errored (snd (run_setup hard_failing_module init))
   \<and> incoming (snd (run_setup hard_failing_module init)) \<noteq> Some QFalse"
  by (simp add: run_setup_def hard_failing_module_def base_module_def init_def)

subsection \<open>The outgoing queue\<close>

text \<open>
  C8, at a module with one item in its outgoing queue:
  \<open>dequeue_outgoing_event\<close> removes the item and then raises at
  \<open>with self._event_dequeued\<close>, before \<open>notify\<close>; no condition is notified. In no
  state does the call complete.
\<close>

theorem dequeue_outgoing_event_raises:
  "dequeue_outgoing_event one_outgoing
     = (Raised (TypeError ''Condition object does not support the context manager protocol''),
        one_outgoing\<lparr> outgoing := Some (PriorityQueue []) \<rparr>)
   \<and> effects (snd (dequeue_outgoing_event one_outgoing)) = []
   \<and> fst (dequeue_outgoing_event s) \<noteq> Done"
  by (auto simp: dequeue_outgoing_event_def outgoing_event_queue_def sync_with_condition_def
        one_outgoing_def init_def split: option.splits queue.splits list.splits)

text \<open>
  What \<open>make_event\<close> does with a \<open>ValidationError\<close> and with an event that has no
  module.
\<close>

lemma make_event_validation:
  "scan_make_event sc args = Inl (ValidationError e) \<Longrightarrow>
     make_event m sc args raise_error
       = (if raise_error then Inl (ValidationError e) else Inr None)"
  by (simp add: make_event_def)

lemma make_event_attribution:
  "scan_make_event sc args = Inr event \<Longrightarrow>
     make_event m sc args raise_error
       = Inr (Some (if emodule event = None then set_emodule (name m) event else event))"
  by (simp add: make_event_def)

text \<open>
  C9, at a scan whose \<open>make_event\<close> raises \<open>ValidationError\<close> and a call of
  \<open>emit_event\<close> without \<open>raise_error\<close>: \<open>make_event\<close> returns \<open>None\<close>, and
  \<open>emit_event\<close> puts the item \<open>(None, kwargs)\<close> on the outgoing queue.
\<close>

text \<open>
  With an item \<open>(None, {})\<close> in the outgoing queue, a second failed minting, now
  emitted with \<open>quick=True\<close>: the two tuples are compared, their first
  components are equal, and \<open><\<close> on the two dictionaries raises \<open>TypeError\<close>,
  which leaves \<open>emit_event\<close> with both items in the queue.
\<close>

lemma emit_event_second_none_raises:
  "emit_event base_module demo_scan [''not a hostname'', ''DNS_NAME''] None
     (no_kwargs\<lparr> quick := Some True \<rparr>)
     (init\<lparr> outgoing := Some (PriorityQueue [(None, no_kwargs)]) \<rparr>)
   = (Some (TypeError ''< not supported between instances of dict and dict''),
      init\<lparr> outgoing := Some (PriorityQueue [(None, no_kwargs),
                                             (None, no_kwargs\<lparr> quick := Some True \<rparr>)]) \<rparr>)"
  by (simp add: emit_event_def make_event_def queue_outgoing_event_def outgoing_event_queue_def
        item_lt_def demo_scan_def init_def no_kwargs_def)

theorem emit_event_queues_none:
  "scan_make_event demo_scan [''not a hostname'', ''DNS_NAME'']
     = Inl (ValidationError ''invalid event data'')
   \<and> make_event base_module demo_scan [''not a hostname'', ''DNS_NAME''] False = Inr None
   \<and> emit_event base_module demo_scan [''not a hostname'', ''DNS_NAME''] None no_kwargs init
     = (None, init\<lparr> outgoing := Some (PriorityQueue [(None, no_kwargs)]) \<rparr>)"
  by (simp add: emit_event_def make_event_def queue_outgoing_event_def outgoing_event_queue_def
        demo_scan_def init_def)

subsection \<open>Batching\<close>

lemma event_postcheck_frame:
  assumes "event_postcheck m sc e s = Inr ((a, r), e', s')"
  shows "incoming s' = incoming s" "errored s' = errored s" "task_counter s' = task_counter s"
    "filter is_invocation (effects s') = filter is_invocation (effects s)"
    "a \<Longrightarrow> postcheck_accepts m sc e e'"
  using assms
  by (auto simp: event_postcheck_def emit_def postcheck_accepts_def
           split: if_splits sum.splits option.splits)

lemma check_scope_distance_total: "\<exists>r. check_scope_distance m sc e = Inr r"
proof (cases "scope_distance_modifier m")
  case None
  then show ?thesis by (simp add: check_scope_distance_def)
next
  case (Some d)
  then show ?thesis
    by (simp add: check_scope_distance_def max_scope_distance_def)
qed

lemma event_postcheck_total: "\<exists>r. event_postcheck m sc e s = Inr r"
proof -
  obtain r where r: "check_scope_distance m sc e = Inr r"
    using check_scope_distance_total by blast
  show ?thesis
    by (cases r; cases "custom_filtering m e") (auto simp: event_postcheck_def r)
qed

lemma loop_unfold_none:
  "incoming s = None \<Longrightarrow>
     events_waiting_loop m sc events finish s
       = (Inr (events, finish), s\<lparr> incoming := Some (PriorityQueue []) \<rparr>)"
  by (subst events_waiting_loop.simps) (simp add: incoming_event_queue_def)

lemma loop_unfold_false:
  "incoming s = Some QFalse \<Longrightarrow> events_waiting_loop m sc events finish s = (Inr (events, finish), s)"
  by (subst events_waiting_loop.simps) (simp add: incoming_event_queue_def)

lemma loop_unfold_nil:
  "incoming s = Some (PriorityQueue []) \<Longrightarrow>
     events_waiting_loop m sc events finish s = (Inr (events, finish), s)"
  by (subst events_waiting_loop.simps) (simp add: incoming_event_queue_def)

lemma loop_unfold_full:
  "incoming s = Some (PriorityQueue q) \<Longrightarrow> int (length events) > batch_size m \<Longrightarrow>
     events_waiting_loop m sc events finish s = (Inr (events, finish), s)"
  by (subst events_waiting_loop.simps) (simp add: incoming_event_queue_def)

lemma loop_unfold_cons:
  "incoming s = Some (PriorityQueue (e # q)) \<Longrightarrow> \<not> int (length events) > batch_size m \<Longrightarrow>
     events_waiting_loop m sc events finish s
       = (case event_postcheck m sc e (s\<lparr> incoming := Some (PriorityQueue q) \<rparr>) of
            Inl ex \<Rightarrow> (Inl ex, s\<lparr> incoming := Some (PriorityQueue q) \<rparr>)
          | Inr ((acceptable, reason), e', s2) \<Rightarrow>
              if acceptable then
                if etype e' = ''FINISHED''
                then events_waiting_loop m sc events True s2
                else events_waiting_loop m sc (events @ [e']) finish (emit (EventConsumed e') s2)
              else events_waiting_loop m sc events finish s2)"
  by (subst events_waiting_loop.simps) (simp add: incoming_event_queue_def)

lemma queue_items_cases:
  "queue_items s = [] \<Longrightarrow>
     incoming s = None \<or> incoming s = Some QFalse \<or> incoming s = Some (PriorityQueue [])"
  "queue_items s = x # xs \<Longrightarrow> incoming s = Some (PriorityQueue (x # xs))"
  by (auto simp: queue_items_def split: option.splits queue.splits)

lemma loop_inv_refl: "loop_inv m sc xs events s events s"
  by (simp add: loop_inv_def list_all_iff)

lemma loop_inv_refl_upd: "loop_inv m sc xs events s events (s\<lparr> incoming := q \<rparr>)"
  by (simp add: loop_inv_def list_all_iff)

lemma loop_props:
  "queue_items s = xs \<Longrightarrow>
   events_waiting_loop m sc events finish s = (Inr (events', finish'), s') \<Longrightarrow>
   loop_inv m sc xs events s events' s'"
proof (induction xs arbitrary: s events finish)
  case Nil
  from queue_items_cases(1)[OF Nil.prems(1)] Nil.prems(2) show ?case
    by (auto simp: loop_unfold_none loop_unfold_false loop_unfold_nil loop_inv_refl loop_inv_refl_upd)
next
  case (Cons x xs)
  have inc: "incoming s = Some (PriorityQueue (x # xs))"
    using Cons.prems(1) by (rule queue_items_cases(2))
  show ?case
  proof (cases "int (length events) > batch_size m")
    case True
    with inc Cons.prems(2) show ?thesis by (simp add: loop_unfold_full loop_inv_refl)
  next
    case False
    let ?s1 = "s\<lparr> incoming := Some (PriorityQueue xs) \<rparr>"
    from Cons.prems(2) inc False obtain a r e' s2 where
      pc: "event_postcheck m sc x ?s1 = Inr ((a, r), e', s2)"
      by (auto simp: loop_unfold_cons split: sum.splits)
    note fr = event_postcheck_frame[OF pc]
    have qi: "queue_items s2 = xs" "queue_items (emit (EventConsumed e') s2) = xs"
      using fr(1) by (simp_all add: queue_items_def emit_def)
    show ?thesis
    proof (cases a)
      case rej: False
      with Cons.prems(2) inc False pc
      have "events_waiting_loop m sc events finish s2 = (Inr (events', finish'), s')"
        by (simp add: loop_unfold_cons)
      from Cons.IH[OF qi(1) this] fr show ?thesis
        by (auto simp: loop_inv_def list_all_iff list_ex_iff)
    next
      case acc: True
      show ?thesis
      proof (cases "etype e' = ''FINISHED''")
        case True
        with Cons.prems(2) inc False pc acc
        have "events_waiting_loop m sc events True s2 = (Inr (events', finish'), s')"
          by (simp add: loop_unfold_cons)
        from Cons.IH[OF qi(1) this] fr show ?thesis
          by (auto simp: loop_inv_def list_all_iff list_ex_iff)
      next
        case nf: False
        with Cons.prems(2) inc False pc acc
        have "events_waiting_loop m sc (events @ [e']) finish (emit (EventConsumed e') s2)
                = (Inr (events', finish'), s')"
          by (simp add: loop_unfold_cons)
        from Cons.IH[OF qi(2) this] fr(2-4) fr(5)[OF acc] nf False show ?thesis
          by (auto simp: loop_inv_def list_all_iff list_ex_iff emit_def)
      qed
    qed
  qed
qed




text \<open>The loop of \<open>events_waiting\<close> returns, and it raises nothing.\<close>

lemma loop_total:
  "queue_items s = xs \<Longrightarrow>
     \<exists>events' finish' s'. events_waiting_loop m sc events finish s = (Inr (events', finish'), s')"
proof (induction xs arbitrary: s events finish)
  case Nil
  from queue_items_cases(1)[OF Nil] show ?case
    by (auto simp: loop_unfold_none loop_unfold_false loop_unfold_nil)
next
  case (Cons x xs)
  have inc: "incoming s = Some (PriorityQueue (x # xs))"
    using Cons.prems by (rule queue_items_cases(2))
  show ?case
  proof (cases "int (length events) > batch_size m")
    case True
    with inc show ?thesis by (simp add: loop_unfold_full)
  next
    case False
    obtain a r e' s2 where
      pc: "event_postcheck m sc x (s\<lparr> incoming := Some (PriorityQueue xs) \<rparr>) = Inr ((a, r), e', s2)"
      using event_postcheck_total [of m sc x "s\<lparr> incoming := Some (PriorityQueue xs) \<rparr>"]
      by auto
    have qi: "queue_items s2 = xs" "queue_items (emit (EventConsumed e') s2) = xs"
      using event_postcheck_frame(1)[OF pc] by (simp_all add: queue_items_def emit_def)
    from Cons.IH[OF qi(1)] Cons.IH[OF qi(2)] inc False pc show ?thesis
      by (simp add: loop_unfold_cons)
  qed
qed

lemma events_waiting_total:
  "\<exists>events finish s'. events_waiting m sc s = (Inr (events, finish, False), s')"
  using loop_total [OF refl, of m sc "[]" False s] by (auto simp: events_waiting_def)

lemma events_waiting_props:
  assumes "events_waiting m sc s = (Inr (events, finish, report), s')"
  shows "loop_inv m sc (queue_items s) [] s events s'" and "report = False"
proof -
  from assms obtain s1 where
    l: "events_waiting_loop m sc [] False s = (Inr (events, finish), s1)" and "s' = s1"
      and r: "report = False"
    by (auto simp: events_waiting_def split: prod.splits sum.splits)
  then show "loop_inv m sc (queue_items s) [] s events s'"
    using loop_props [OF refl l] by simp
  show "report = False" by (rule r)
qed

lemma num_incoming_events_frame:
  assumes "num_incoming_events s = (n, s1)"
  shows "errored s1 = errored s" "task_counter s1 = task_counter s" "effects s1 = effects s"
    "n = length (queue_items s)" "queue_items s1 = queue_items s"
  using assms
  by (auto simp: num_incoming_events_def incoming_event_queue_def queue_items_def
           split: option.splits queue.splits)

lemma handle_batches_append:
  "handle_batches (xs @ ys) = handle_batches xs @ handle_batches ys"
  by (induction xs rule: handle_batches.induct) simp_all

text \<open>
  The user callbacks one run of \<open>_handle_batch\<close> invokes in the batch arm, with
  the value of the task counter during each.
\<close>

lemma run_handle_batch_invocations:
  assumes "1 < batch_size m"
    and "num_incoming_events s = (n, s1)" and "0 < n"
    and "events_waiting m sc s1 = (Inr (events, finish, report), s2)"
  shows "invocations (snd (run_handle_batch m sc s))
           = invocations s
             @ (if events \<noteq> [] \<and> \<not> errored s
                then [Invoked (HandleBatch events) (task_counter s + 1)] else [])
             @ (if finish \<and> \<not> errored s then [Invoked Finish (task_counter s)] else [])"
proof -
  note nf = num_incoming_events_frame [OF assms(2)]
  note ew = events_waiting_props [OF assms(4)]
  from ew(1) nf have fr: "errored s2 = errored s" "task_counter s2 = task_counter s"
    "invocations s2 = invocations s"
    by (simp_all add: loop_inv_def invocations_def)
  from assms fr ew(2) show ?thesis
    by (simp add: run_handle_batch_def invocations_def acatch_def with_task_counter_def
          invoke_def emit_def)
qed

text \<open>
  C3, at a module with \<open>batch_size = 2\<close> and a \<open>FINISHED\<close> event in its incoming
  queue, the task counter being \<open>0\<close>: \<open>_handle_batch\<close> invokes \<open>finish\<close> while the
  counter is \<open>0\<close>. The single-event arm of \<open>_worker\<close>, run on the same state by
  a module with \<open>batch_size = 1\<close>, invokes \<open>finish\<close> while the counter is \<open>1\<close>.
\<close>

theorem batch_finish_not_counted:
  "task_counter finished_queued = 0
   \<and> run_handle_batch batch_module demo_scan finished_queued
       = (Inr (Some False),
          init\<lparr> incoming := Some (PriorityQueue []), effects := [Invoked Finish 0] \<rparr>)
   \<and> worker_dispatch base_module demo_scan finished_queued
       = (Looping,
          init\<lparr> incoming := Some (PriorityQueue []), effects := [Invoked Finish 1] \<rparr>)"
  by (simp add: run_handle_batch_def worker_dispatch_def num_incoming_events_def
        incoming_event_queue_def events_waiting_def loop_unfold_cons loop_unfold_nil
        event_postcheck_def finished_queued_def finished_event_def batch_module_def
        base_module_def init_def acatch_def invoke_def with_task_counter_def emit_def)

text \<open>
  C4, batch assembly. In the batch arm (\<open>batch_size > 1\<close>, incoming queue not
  empty), for the batch \<open>events\<close> that \<open>events_waiting\<close> assembles: it has at
  most \<open>batch_size + 1\<close> events; each of them is not \<open>FINISHED\<close> and is an item
  of the incoming queue that \<open>_event_postcheck\<close> accepted; and this run of
  \<open>_handle_batch\<close> hands the batch to \<open>handle_batch\<close>, once, if the batch is not
  empty and the module is not errored, and does not invoke \<open>handle_batch\<close>
  otherwise.
\<close>

theorem batch_assembly:
  assumes "1 < batch_size m"
    and "num_incoming_events s = (n, s1)" and "0 < n"
    and "events_waiting m sc s1 = (Inr (events, finish, report), s2)"
  shows "int (length events) \<le> batch_size m + 1
       \<and> list_all (\<lambda>e'. etype e' \<noteq> ''FINISHED''
                          \<and> list_ex (\<lambda>e. postcheck_accepts m sc e e') (queue_items s)) events
       \<and> handle_batch_calls (snd (run_handle_batch m sc s))
           = handle_batch_calls s @ (if events \<noteq> [] \<and> \<not> errored s then [events] else [])"
proof -
  note nf = num_incoming_events_frame [OF assms(2)]
  note ew = events_waiting_props [OF assms(4)]
  from ew(1) nf have fr: "errored s2 = errored s" "task_counter s2 = task_counter s"
    by (simp_all add: loop_inv_def)
  have len: "int (length events) \<le> batch_size m + 1"
    using ew(1) assms(1) by (simp add: loop_inv_def)
  have acc: "list_all (\<lambda>e'. etype e' \<noteq> ''FINISHED''
                          \<and> list_ex (\<lambda>e. postcheck_accepts m sc e e') (queue_items s)) events"
    using ew(1) nf(5) by (simp add: loop_inv_def)
  have calls: "handle_batch_calls (snd (run_handle_batch m sc s))
           = handle_batch_calls s @ (if events \<noteq> [] \<and> \<not> errored s then [events] else [])"
    by (simp add: handle_batch_calls_def run_handle_batch_invocations [OF assms]
          handle_batches_append)
  from len acc calls show ?thesis by blast
qed

theorem batch_assembly_witness:
  "1 < batch_size batch_module
   \<and> num_incoming_events batch_queued = (4, batch_queued) \<and> (0::nat) < 4
   \<and> events_waiting batch_module demo_scan batch_queued
       = (Inr ([dns_event 0, dns_event 1], True, False),
          batch_queued\<lparr> incoming := Some (PriorityQueue []),
                         effects := [EventConsumed (dns_event 0), EventConsumed (dns_event 1)] \<rparr>)
   \<and> handle_batch_calls (snd (run_handle_batch batch_module demo_scan batch_queued))
       = [[dns_event 0, dns_event 1]]"
proof -
  have b: "1 < batch_size batch_module"
    by (simp add: batch_module_def base_module_def)
  have n: "num_incoming_events batch_queued = (4, batch_queued)"
    by (simp add: num_incoming_events_def incoming_event_queue_def batch_queued_def init_def)
  have e: "events_waiting batch_module demo_scan batch_queued
       = (Inr ([dns_event 0, dns_event 1], True, False),
          batch_queued\<lparr> incoming := Some (PriorityQueue []),
                         effects := [EventConsumed (dns_event 0), EventConsumed (dns_event 1)] \<rparr>)"
    by (simp add: events_waiting_def loop_unfold_cons loop_unfold_nil event_postcheck_def
          check_scope_distance_def max_scope_distance_def custom_filtering_def
          batch_queued_def init_def batch_module_def base_module_def demo_scan_def
          dns_event_def finished_event_def emit_def)
  have c: "handle_batch_calls batch_queued = []" "\<not> errored batch_queued"
    by (simp_all add: handle_batch_calls_def invocations_def batch_queued_def init_def)
  show ?thesis
    using b n e c batch_assembly [OF b n _ e] by simp
qed




end
